theory Spec2Isabelle
  imports Main "HOL-Library.Sublist"
begin

section \<open>Strings and numbers of the host language\<close>

text \<open>
  JavaScript strings are modelled as \<open>string\<close> holding the UTF-8 bytes of the text.
  Numbers that the controller stores or prints are integers (\<open>int\<close>); the slider
  handler's \<open>parseInt\<close> can also yield NaN, which is outside the integer inputs the
  properties below quantify over.
\<close>

fun show_nat :: "nat \<Rightarrow> string" where
  "show_nat n = (if n < 10 then [''0123456789'' ! n]
                 else show_nat (n div 10) @ [''0123456789'' ! (n mod 10)])"

declare show_nat.simps [simp del]

definition show_int :: "int \<Rightarrow> string" where
  \<comment> \<open>Number-to-string conversion of an integer, as a template literal performs it.\<close>
  "show_int i = (if i < 0 then CHR ''-'' # show_nat (nat (- i)) else show_nat (nat i))"

definition upper_char :: "char \<Rightarrow> char" where
  "upper_char c =
     (case map_of (zip ''abcdefghijklmnopqrstuvwxyz'' ''ABCDEFGHIJKLMNOPQRSTUVWXYZ'') c of
        Some u \<Rightarrow> u | None \<Rightarrow> c)"

definition toUpperCase :: "string \<Rightarrow> string" where
  \<comment> \<open>\<open>String.prototype.toUpperCase\<close> on ASCII letters; other bytes are kept. It is
      applied to the direction only, whose values are ASCII words.\<close>
  "toUpperCase s = map upper_char s"

definition startsWith :: "string \<Rightarrow> string \<Rightarrow> bool" where
  "startsWith s p = (take (length p) s = p)"

text \<open>
  \<open>String.prototype.trim\<close> strips the white space and line terminators of ECMAScript
  from both ends. The table lists their UTF-8 encodings: TAB, LF, VT, FF, CR, SP,
  U+00A0, U+1680, U+2000 to U+200A, U+2028, U+2029, U+202F, U+205F, U+3000, U+FEFF.
\<close>

definition whitespace :: "string list" where
  "whitespace =
     [[CHR 0x09], [CHR 0x0A], [CHR 0x0B], [CHR 0x0C], [CHR 0x0D], [CHR 0x20],
      [CHR 0xC2, CHR 0xA0],
      [CHR 0xE1, CHR 0x9A, CHR 0x80],
      [CHR 0xE2, CHR 0x80, CHR 0x80], [CHR 0xE2, CHR 0x80, CHR 0x81],
      [CHR 0xE2, CHR 0x80, CHR 0x82], [CHR 0xE2, CHR 0x80, CHR 0x83],
      [CHR 0xE2, CHR 0x80, CHR 0x84], [CHR 0xE2, CHR 0x80, CHR 0x85],
      [CHR 0xE2, CHR 0x80, CHR 0x86], [CHR 0xE2, CHR 0x80, CHR 0x87],
      [CHR 0xE2, CHR 0x80, CHR 0x88], [CHR 0xE2, CHR 0x80, CHR 0x89],
      [CHR 0xE2, CHR 0x80, CHR 0x8A],
      [CHR 0xE2, CHR 0x80, CHR 0xA8], [CHR 0xE2, CHR 0x80, CHR 0xA9],
      [CHR 0xE2, CHR 0x80, CHR 0xAF],
      [CHR 0xE2, CHR 0x81, CHR 0x9F],
      [CHR 0xE3, CHR 0x80, CHR 0x80],
      [CHR 0xEF, CHR 0xBB, CHR 0xBF]]"

definition ws_len :: "string list \<Rightarrow> string \<Rightarrow> nat" where
  \<comment> \<open>Number of bytes of the white-space character the string starts with, 0 if none.\<close>
  "ws_len ws s = (case find (\<lambda>w. w \<noteq> [] \<and> take (length w) s = w) ws of
                    Some w \<Rightarrow> length w | None \<Rightarrow> 0)"

function strip :: "string list \<Rightarrow> string \<Rightarrow> string" where
  "strip ws s = (if ws_len ws s = 0 then s else strip ws (drop (ws_len ws s) s))"
  by pat_completeness auto

termination strip
proof (relation "measure (\<lambda>(ws, s). length s)")
  show "wf (measure (\<lambda>(ws, s). length s))" by simp
next
  fix ws :: "string list" and s :: string
  assume pos: "ws_len ws s \<noteq> 0"
  have "ws_len ws s \<le> length s"
  proof (cases "find (\<lambda>w. w \<noteq> [] \<and> take (length w) s = w) ws")
    case None
    then show ?thesis by (simp add: ws_len_def)
  next
    case (Some w)
    then have "take (length w) s = w" by (auto simp: find_Some_iff)
    then have "length (take (length w) s) = length w" by (rule arg_cong)
    then have "length w \<le> length s" by simp
    with Some show ?thesis by (simp add: ws_len_def)
  qed
  with pos show "((ws, drop (ws_len ws s) s), (ws, s)) \<in> measure (\<lambda>(ws, s). length s)"
    by simp
qed

declare strip.simps [simp del]

definition trim :: "string \<Rightarrow> string" where
  "trim s = rev (strip (map rev whitespace) (rev (strip whitespace s)))"

text \<open>
  \<open>parseInt\<close> without a radix: leading white space is skipped, a sign is read, a
  \<open>0x\<close> prefix selects radix 16, and the longest run of digits is the value. \<open>None\<close>
  is NaN. The controller applies it to the port of a parsed URL.
\<close>

definition digit_of :: "nat \<Rightarrow> char \<Rightarrow> nat option" where
  "digit_of R c =
     (case map_of (zip ''0123456789abcdefABCDEF''
                       [0, 1, 2, 3, 4, 5, 6, 7, 8, 9, 10, 11, 12, 13, 14, 15, 10, 11, 12, 13, 14, 15]) c of
        Some d \<Rightarrow> if d < R then Some d else None
      | None \<Rightarrow> None)"

definition parseInt :: "string \<Rightarrow> int option" where
  "parseInt str =
     (let S = strip whitespace str;
          sign = (if startsWith S ''-'' then - 1 else 1);
          S1 = (if startsWith S ''-'' \<or> startsWith S ''+'' then drop 1 S else S);
          R = (if startsWith S1 ''0x'' \<or> startsWith S1 ''0X'' then 16 else 10);
          S2 = (if R = 16 then drop 2 S1 else S1);
          Z = takeWhile (\<lambda>c. digit_of R c \<noteq> None) S2
      in if Z = [] then None
         else Some (sign * int (foldl (\<lambda>a c. a * R + (case digit_of R c of Some d \<Rightarrow> d | None \<Rightarrow> 0)) 0 Z)))"

definition or_default :: "int option \<Rightarrow> int \<Rightarrow> int" where
  \<comment> \<open>\<open>parseInt(p) || d\<close>: NaN and 0 are falsy.\<close>
  "or_default p d = (case p of None \<Rightarrow> d | Some n \<Rightarrow> if n = 0 then d else n)"

subsection \<open>JSON.stringify on the published object\<close>

datatype json_value = JBoolean bool | JNumber int | JString string

definition json_escape :: "char \<Rightarrow> string" where
  "json_escape c =
     (if c = CHR 0x08 then [CHR 0x5C, CHR ''b'']
      else if c = CHR 0x09 then [CHR 0x5C, CHR ''t'']
      else if c = CHR 0x0A then [CHR 0x5C, CHR ''n'']
      else if c = CHR 0x0C then [CHR 0x5C, CHR ''f'']
      else if c = CHR 0x0D then [CHR 0x5C, CHR ''r'']
      else if c = CHR 0x22 then [CHR 0x5C, CHR 0x22]
      else if c = CHR 0x5C then [CHR 0x5C, CHR 0x5C]
      else if (of_char c :: nat) < 32 then
        [CHR 0x5C, CHR ''u'', CHR ''0'', CHR ''0'',
         ''0123456789abcdef'' ! (of_char c div 16), ''0123456789abcdef'' ! (of_char c mod 16)]
      else [c])"

definition json_quote :: "string \<Rightarrow> string" where
  "json_quote s = CHR 0x22 # concat (map json_escape s) @ [CHR 0x22]"

fun json_render :: "json_value \<Rightarrow> string" where
  "json_render (JBoolean b) = (if b then ''true'' else ''false'')"
| "json_render (JNumber n) = show_int n"
| "json_render (JString s) = json_quote s"

fun join :: "string \<Rightarrow> string list \<Rightarrow> string" where
  "join sep [] = []"
| "join sep [x] = x"
| "join sep (x # y # ys) = x @ sep @ join sep (y # ys)"

definition JSON_stringify :: "(string \<times> json_value) list \<Rightarrow> string" where
  \<comment> \<open>Serialisation of an object literal, given as its properties in order.\<close>
  "JSON_stringify props =
     ''{'' @ join '','' (map (\<lambda>(k, v). json_quote k @ '':'' @ json_render v) props) @ ''}''"

section \<open>The browser and the MQTT library\<close>

text \<open>
  What the controller reads from its surroundings is a parameter of the model:
  whether the global \<open>Paho\<close> is defined, the \<open>URL\<close> constructor (\<open>Inl\<close> carries the
  message of the error it throws), whether \<open>new Paho.Client\<close> or \<open>client.connect\<close>
  throws, \<open>JSON.parse\<close>, and the clock: the \<open>n\<close>-th \<open>new Date()\<close> of a run yields
  \<open>dates n\<close>.
\<close>

record date =
  toISOString :: string
  toLocaleTimeString :: string

record url =
  hostname :: string
  port :: string

datatype paho_client = Client (clientHost: string) (clientPort: int) (clientName: string)

text \<open>
  The result of \<open>JSON.parse\<close> as far as the controller looks at it: reading
  \<open>data.message\<close> throws on \<open>null\<close>; on any other value it yields something that the
  template literal turns into text (\<open>undefined\<close> when there is no such property).
\<close>

datatype parsed = ParsedNull | ParsedValue (messageText: string)

record env =
  pahoLoaded :: bool
  newURL :: "string \<Rightarrow> string + url"
  clientThrows :: "string \<Rightarrow> int \<Rightarrow> string \<Rightarrow> string option"
  connectThrows :: "paho_client \<Rightarrow> bool \<Rightarrow> string option"
  jsonParse :: "string \<Rightarrow> parsed option"
  dates :: "nat \<Rightarrow> date"

text \<open>
  Calls made on Paho clients, in order. \<open>Connect\<close> carries \<open>useSSL\<close>, \<open>timeout\<close>,
  \<open>keepAliveInterval\<close> and \<open>cleanSession\<close>; \<open>Publish\<close> carries topic, payload, qos and
  the retained flag. The controller calls \<open>publish\<close>, \<open>subscribe\<close> and \<open>disconnect\<close> only
  when \<open>isConnected\<close> is true; such a call is recorded and returns normally. (Paho raises
  in them when the session of that very handle is not established; what the controller
  has done up to the call is the same either way.)
\<close>

datatype paho_call =
    Connect paho_client bool nat nat bool
  | Disconnect paho_client
  | Subscribe paho_client string
  | Publish paho_client string string nat bool

section \<open>The page\<close>

text \<open>
  The DOM nodes the controller holds in \<open>this.elements\<close>, each reduced to the properties
  the code reads or writes: a class list, a text content, an input value. All of them
  exist on the page (\<open>getDOMElements\<close> found each one). The children of the log pane are
  nodes with a class list and a text.
\<close>

record node =
  classList :: "string list"
  textContent :: string

record dom_elements =
  statusIndicator :: "string list"
  statusText :: string
  connectButton_text :: string
  connectButton_background :: string
  brokerUrl_value :: string
  clientId_value :: string
  speedSlider :: string
  speedValue :: string
  powerButton :: "string list"
  powerButton_text :: string
  powerStatus :: string
  directionButton :: "string list"
  directionButton_text :: string
  directionButton_icon :: string
  directionStatus :: string
  statusLog :: "node list"

definition classList_add :: "string \<Rightarrow> string list \<Rightarrow> string list" where
  "classList_add c cl = (if c \<in> set cl then cl else cl @ [c])"

definition classList_remove :: "string \<Rightarrow> string list \<Rightarrow> string list" where
  "classList_remove c cl = filter (\<lambda>x. x \<noteq> c) cl"

section \<open>The controller\<close>

record motor_state =
  isOn :: bool
  speed :: int
  direction :: string

text \<open>
  Besides the fields of the class, the state carries what the controller did to the
  outside: the Paho calls made (\<open>calls\<close>), the arguments \<open>updateConnectionStatus\<close> was
  called with (\<open>statusHistory\<close>) and the number of \<open>Date\<close> objects created (\<open>dateCount\<close>).
\<close>

record controller =
  client :: "paho_client option"
  isConnected :: bool
  motorState :: motor_state
  elements :: dom_elements
  calls :: "paho_call list"
  statusHistory :: "string list"
  dateCount :: nat

definition topics_motor :: string where "topics_motor = ''akuri/motor/control''"
definition topics_status :: string where "topics_status = ''akuri/motor/status''"
definition topics_log :: string where "topics_log = ''akuri/motor/log''"

definition MotorController :: "dom_elements \<Rightarrow> controller" where
  \<comment> \<open>The constructor; the argument is the page the element references will point to.\<close>
  "MotorController page =
     \<lparr>client = None, isConnected = False,
      motorState = \<lparr>isOn = False, speed = 0, direction = ''forward''\<rparr>,
      elements = page, calls = [], statusHistory = [], dateCount = 0\<rparr>"

subsection \<open>The log pane\<close>

definition is_log_entry :: "node \<Rightarrow> bool" where
  \<comment> \<open>The selector \<open>.log-entry\<close>.\<close>
  "is_log_entry n = (''log-entry'' \<in> set (classList n))"

fun remove_first :: "('a \<Rightarrow> bool) \<Rightarrow> 'a list \<Rightarrow> 'a list" where
  "remove_first P [] = []"
| "remove_first P (x # xs) = (if P x then xs else x # remove_first P xs)"

definition log_line :: "env \<Rightarrow> string \<Rightarrow> controller \<Rightarrow> node" where
  \<comment> \<open>The \<open>div\<close> that \<open>addLogEntry\<close> creates, with the time read from the clock.\<close>
  "log_line e message s =
     (let timestamp = toLocaleTimeString (dates e (dateCount s))
      in \<lparr>classList = [''log-entry''], textContent = ''['' @ timestamp @ ''] '' @ message\<rparr>)"

definition addLogEntry :: "env \<Rightarrow> string \<Rightarrow> controller \<Rightarrow> controller" where
  "addLogEntry e message s =
     (let logEntry = log_line e message s;
          children = statusLog (elements s) @ [logEntry];
          entries = filter is_log_entry children;
          children' = (if length entries > 50 then remove_first is_log_entry children
                       else children)
      in s\<lparr>elements := (elements s)\<lparr>statusLog := children'\<rparr>,
           dateCount := Suc (dateCount s)\<rparr>)"

definition clearLog :: "controller \<Rightarrow> controller" where
  "clearLog s =
     s\<lparr>elements := (elements s)
          \<lparr>statusLog := [\<lparr>classList = [''log-entry''], textContent = ''Log cleared''\<rparr>]\<rparr>\<rparr>"

definition log_entries :: "controller \<Rightarrow> node list" where
  \<comment> \<open>The log buffer: the log entries of the pane, oldest first.\<close>
  "log_entries s = filter is_log_entry (statusLog (elements s))"

subsection \<open>Rendering\<close>

definition updateUI :: "controller \<Rightarrow> controller" where
  "updateUI s =
     (let m = motorState s;
          el1 = (elements s)\<lparr>speedValue := show_int (speed m), speedSlider := show_int (speed m)\<rparr>;
          el2 = (if isOn m then
                   el1\<lparr>powerButton := classList_add ''on'' (classList_remove ''off'' (powerButton el1)),
                       powerButton_text := ''Turn Off'',
                       powerStatus := ''Motor: ON''\<rparr>
                 else
                   el1\<lparr>powerButton := classList_add ''off'' (classList_remove ''on'' (powerButton el1)),
                       powerButton_text := ''Turn On'',
                       powerStatus := ''Motor: OFF''\<rparr>);
          el3 = (if direction m = ''forward'' then
                   el2\<lparr>directionButton :=
                         classList_add ''forward'' (classList_remove ''reverse'' (directionButton el2)),
                       directionButton_text := ''Forward'',
                       directionButton_icon := [CHR 0xE2, CHR 0x96, CHR 0xB6, CHR 0xEF, CHR 0xB8, CHR 0x8F],
                       directionStatus := ''Direction: FORWARD''\<rparr>
                 else
                   el2\<lparr>directionButton :=
                         classList_add ''reverse'' (classList_remove ''forward'' (directionButton el2)),
                       directionButton_text := ''Reverse'',
                       directionButton_icon := [CHR 0xE2, CHR 0x97, CHR 0x80, CHR 0xEF, CHR 0xB8, CHR 0x8F],
                       directionStatus := ''Direction: REVERSE''\<rparr>);
          el4 = (if isConnected s then
                   el3\<lparr>connectButton_text := ''Disconnect'',
                       connectButton_background := ''linear-gradient(135deg, #e74c3c, #c0392b)''\<rparr>
                 else
                   el3\<lparr>connectButton_text := ''Connect to MQTT'',
                       connectButton_background := ''linear-gradient(135deg, #3498db, #2980b9)''\<rparr>)
      in s\<lparr>elements := el4\<rparr>)"

definition updateConnectionStatus :: "string \<Rightarrow> controller \<Rightarrow> controller" where
  "updateConnectionStatus status s =
     (let el = elements s;
          el' = (if status = ''connected'' then
                   el\<lparr>statusIndicator := classList_add ''connected'' (statusIndicator el),
                      statusText := ''Connected''\<rparr>
                 else if status = ''connecting'' then
                   el\<lparr>statusIndicator := classList_remove ''connected'' (statusIndicator el),
                      statusText := ''Connecting...''\<rparr>
                 else if status = ''error'' then
                   el\<lparr>statusIndicator := classList_remove ''connected'' (statusIndicator el),
                      statusText := ''Connection Error''\<rparr>
                 else
                   el\<lparr>statusIndicator := classList_remove ''connected'' (statusIndicator el),
                      statusText := ''Disconnected''\<rparr>)
      in s\<lparr>elements := el', statusHistory := statusHistory s @ [status]\<rparr>)"

subsection \<open>Publishing and subscribing\<close>

definition motor_message :: "motor_state \<Rightarrow> date \<Rightarrow> (string \<times> json_value) list" where
  \<comment> \<open>The object literal of \<open>publishMotorState\<close>.\<close>
  "motor_message m d =
     [(''isOn'', JBoolean (isOn m)),
      (''speed'', JNumber (speed m)),
      (''direction'', JString (direction m)),
      (''timestamp'', JString (toISOString d))]"

definition publishMotorState :: "env \<Rightarrow> controller \<Rightarrow> controller" where
  "publishMotorState e s =
     (case client s of
        None \<Rightarrow> s
      | Some c \<Rightarrow>
          if \<not> isConnected s then s
          else
            let message = JSON_stringify (motor_message (motorState s) (dates e (dateCount s)))
            in s\<lparr>calls := calls s @ [Publish c topics_motor message 0 False],
                 dateCount := Suc (dateCount s)\<rparr>)"

definition subscribeToTopics :: "controller \<Rightarrow> controller" where
  "subscribeToTopics s =
     (case client s of
        None \<Rightarrow> s
      | Some c \<Rightarrow>
          if \<not> isConnected s then s
          else s\<lparr>calls := calls s @ map (Subscribe c) [topics_motor, topics_status, topics_log]\<rparr>)"

definition onSubscribeSuccess :: "env \<Rightarrow> string \<Rightarrow> controller \<Rightarrow> controller" where
  "onSubscribeSuccess e topic s = addLogEntry e (''Subscribed to topic: '' @ topic) s"

definition onSubscribeFailure :: "env \<Rightarrow> string \<Rightarrow> string \<Rightarrow> controller \<Rightarrow> controller" where
  "onSubscribeFailure e topic errorMessage s =
     addLogEntry e (''Failed to subscribe to '' @ topic @ '': '' @ errorMessage) s"

subsection \<open>The mutators\<close>

definition setSpeed :: "env \<Rightarrow> int \<Rightarrow> controller \<Rightarrow> controller" where
  "setSpeed e n s =
     (let s1 = s\<lparr>motorState := (motorState s)\<lparr>speed := max 0 (min 100 n)\<rparr>\<rparr>;
          s2 = updateUI s1;
          s3 = (if isConnected s2 then publishMotorState e s2 else s2)
      in addLogEntry e (''Speed set to '' @ show_int (speed (motorState s3)) @ ''%'') s3)"

definition toggleMotor :: "env \<Rightarrow> controller \<Rightarrow> controller" where
  "toggleMotor e s =
     (let s1 = s\<lparr>motorState := (motorState s)\<lparr>isOn := \<not> isOn (motorState s)\<rparr>\<rparr>;
          s2 = updateUI s1;
          s3 = (if isConnected s2 then publishMotorState e s2 else s2);
          status = (if isOn (motorState s3) then ''ON'' else ''OFF'')
      in addLogEntry e (''Motor turned '' @ status) s3)"

definition toggleDirection :: "env \<Rightarrow> controller \<Rightarrow> controller" where
  "toggleDirection e s =
     (let s1 = s\<lparr>motorState := (motorState s)
                 \<lparr>direction := (if direction (motorState s) = ''forward'' then ''reverse''
                                 else ''forward'')\<rparr>\<rparr>;
          s2 = updateUI s1;
          s3 = (if isConnected s2 then publishMotorState e s2 else s2);
          dir = toUpperCase (direction (motorState s3))
      in addLogEntry e (''Direction changed to '' @ dir) s3)"

datatype mutator = SetSpeed int | ToggleMotor | ToggleDirection

fun mutate :: "env \<Rightarrow> mutator \<Rightarrow> controller \<Rightarrow> controller" where
  "mutate e (SetSpeed n) s = setSpeed e n s"
| "mutate e ToggleMotor s = toggleMotor e s"
| "mutate e ToggleDirection s = toggleDirection e s"

fun mutate_all :: "env \<Rightarrow> mutator list \<Rightarrow> controller \<Rightarrow> controller" where
  "mutate_all e [] s = s"
| "mutate_all e (m # ms) s = mutate_all e ms (mutate e m s)"

subsection \<open>Incoming messages\<close>

text \<open>
  The body of the \<open>try\<close> block: \<open>None\<close> when it throws, which it can do only before
  its first effect (in \<open>JSON.parse\<close>, or reading \<open>data.message\<close> of \<open>null\<close>).
\<close>

definition handleIncomingMessage_try ::
  "env \<Rightarrow> string \<Rightarrow> string \<Rightarrow> controller \<Rightarrow> controller option" where
  "handleIncomingMessage_try e topic message s =
     (case jsonParse e message of
        None \<Rightarrow> None
      | Some data \<Rightarrow>
          if topic = topics_status then
            (case data of
               ParsedNull \<Rightarrow> None
             | ParsedValue m \<Rightarrow> Some (addLogEntry e (''Status update: '' @ m) s))
          else if topic = topics_log then
            (case data of
               ParsedNull \<Rightarrow> None
             | ParsedValue m \<Rightarrow> Some (addLogEntry e (''Motor log: '' @ m) s))
          else Some (addLogEntry e (''Received on '' @ topic @ '': '' @ message) s))"

definition handleIncomingMessage :: "env \<Rightarrow> string \<Rightarrow> string \<Rightarrow> controller \<Rightarrow> controller" where
  "handleIncomingMessage e topic message s =
     (case handleIncomingMessage_try e topic message s of
        Some s' \<Rightarrow> s'
      | None \<Rightarrow> addLogEntry e (''Received on '' @ topic @ '': '' @ message) s)"

subsection \<open>Connecting and disconnecting\<close>

definition parse_broker :: "env \<Rightarrow> string \<Rightarrow> string + (string \<times> int \<times> bool)" where
  \<comment> \<open>Host, port and \<open>useSSL\<close> of the broker URL, or the message of the error thrown.\<close>
  "parse_broker e brokerUrl =
     (if startsWith brokerUrl ''ws://'' then
        (case newURL e brokerUrl of
           Inl msg \<Rightarrow> Inl msg
         | Inr u \<Rightarrow> Inr (hostname u, or_default (parseInt (port u)) 8000, False))
      else if startsWith brokerUrl ''wss://'' then
        (case newURL e brokerUrl of
           Inl msg \<Rightarrow> Inl msg
         | Inr u \<Rightarrow> Inr (hostname u, or_default (parseInt (port u)) 8884, True))
      else if startsWith brokerUrl ''mqtt://'' then
        (case newURL e brokerUrl of
           Inl msg \<Rightarrow> Inl msg
         | Inr u \<Rightarrow> Inr (hostname u, or_default (parseInt (port u)) 1883, False))
      else Inl ''Unsupported protocol. Use ws://, wss://, or mqtt://'')"

text \<open>
  The body of the \<open>try\<close> block of \<open>connect\<close>: \<open>Inl (msg, s')\<close> when an error with
  message \<open>msg\<close> is thrown in state \<open>s'\<close>, \<open>Inr s'\<close> when the block completes with the
  connection attempt under way.
\<close>

definition connect_try ::
  "env \<Rightarrow> string \<Rightarrow> string \<Rightarrow> controller \<Rightarrow> (string \<times> controller) + controller" where
  "connect_try e brokerUrl clientId s =
     (if \<not> pahoLoaded e then Inl (''Paho MQTT library not loaded'', s)
      else
        let s1 = addLogEntry e (''Connecting to MQTT broker: '' @ brokerUrl) s;
            s2 = updateConnectionStatus ''connecting'' s1
        in case parse_broker e brokerUrl of
             Inl msg \<Rightarrow> Inl (msg, s2)
           | Inr (host, portNo, useSSL) \<Rightarrow>
               (case clientThrows e host portNo clientId of
                  Some msg \<Rightarrow> Inl (msg, s2)
                | None \<Rightarrow>
                    let c = Client host portNo clientId;
                        s3 = s2\<lparr>client := Some c\<rparr>
                    in case connectThrows e c useSSL of
                         Some msg \<Rightarrow> Inl (msg, s3)
                       | None \<Rightarrow> Inr (s3\<lparr>calls := calls s3 @ [Connect c useSSL 10 60 True]\<rparr>)))"

definition connect :: "env \<Rightarrow> controller \<Rightarrow> controller" where
  "connect e s =
     (let brokerUrl = trim (brokerUrl_value (elements s));
          clientId = trim (clientId_value (elements s))
      in if brokerUrl = [] then addLogEntry e ''Error: Please enter a broker URL'' s
         else if clientId = [] then addLogEntry e ''Error: Please enter a client ID'' s
         else
           case connect_try e brokerUrl clientId s of
             Inr s' \<Rightarrow> s'
           | Inl (msg, s') \<Rightarrow>
               updateConnectionStatus ''error'' (addLogEntry e (''Connection failed: '' @ msg) s'))"

text \<open>The callbacks handed to the Paho client; the library calls them later.\<close>

definition onConnectionLost :: "env \<Rightarrow> string \<Rightarrow> controller \<Rightarrow> controller" where
  "onConnectionLost e errorMessage s =
     addLogEntry e (''Connection lost: '' @ errorMessage)
       (updateConnectionStatus ''disconnected'' (s\<lparr>isConnected := False\<rparr>))"

definition onMessageArrived :: "env \<Rightarrow> string \<Rightarrow> string \<Rightarrow> controller \<Rightarrow> controller" where
  "onMessageArrived e destinationName payloadString s =
     handleIncomingMessage e destinationName payloadString s"

definition onSuccess :: "env \<Rightarrow> controller \<Rightarrow> controller" where
  "onSuccess e s =
     publishMotorState e
       (subscribeToTopics
          (addLogEntry e ''Successfully connected to MQTT broker''
             (updateConnectionStatus ''connected'' (s\<lparr>isConnected := True\<rparr>))))"

definition onFailure :: "env \<Rightarrow> string \<Rightarrow> controller \<Rightarrow> controller" where
  "onFailure e errorMessage s =
     updateConnectionStatus ''error'' (addLogEntry e (''Connection failed: '' @ errorMessage) s)"

definition disconnect :: "env \<Rightarrow> controller \<Rightarrow> controller" where
  "disconnect e s =
     (let s1 = (case client s of
                  None \<Rightarrow> s
                | Some c \<Rightarrow>
                    if isConnected s then s\<lparr>client := None, calls := calls s @ [Disconnect c]\<rparr>
                    else s);
          s2 = s1\<lparr>isConnected := False\<rparr>;
          s3 = updateConnectionStatus ''disconnected'' s2
      in addLogEntry e ''Disconnected from MQTT broker'' s3)"

subsection \<open>Start-up and the connect button\<close>

definition initialize :: "env \<Rightarrow> controller \<Rightarrow> controller" where
  "initialize e s = addLogEntry e ''Motor Control Panel initialized'' (updateUI s)"

definition connectButton_click :: "env \<Rightarrow> controller \<Rightarrow> controller" where
  "connectButton_click e s = (if isConnected s then disconnect e s else connect e s)"

section \<open>A concrete page and environment\<close>

text \<open>
  A page as it is before the script runs, a broker that accepts one address, and a
  clock that advances with every reading. The runs below are the inputs at which the
  theorems are exercised.
\<close>

definition page0 :: dom_elements where
  "page0 =
     \<lparr>statusIndicator = [''status-indicator''], statusText = ''Disconnected'',
      connectButton_text = ''Connect to MQTT'', connectButton_background = [],
      brokerUrl_value = '' ws://broker.hivemq.com:8000/mqtt '', clientId_value = ''motor-panel'',
      speedSlider = ''0'', speedValue = ''0'',
      powerButton = [''control-button'', ''off''], powerButton_text = ''Turn On'',
      powerStatus = ''Motor: OFF'',
      directionButton = [''control-button'', ''forward''], directionButton_text = ''Forward'',
      directionButton_icon = [], directionStatus = ''Direction: FORWARD'',
      statusLog = []\<rparr>"

definition env0 :: env where
  "env0 =
     \<lparr>pahoLoaded = True,
      newURL = (\<lambda>u. if u = ''ws://broker.hivemq.com:8000/mqtt''
                     then Inr \<lparr>hostname = ''broker.hivemq.com'', port = ''8000''\<rparr>
                     else Inl ''Invalid URL''),
      clientThrows = (\<lambda>h p c. None),
      connectThrows = (\<lambda>c ssl. None),
      jsonParse = (\<lambda>m. if m = ''null'' then Some ParsedNull
                        else if m = ''{}'' then Some (ParsedValue ''undefined'')
                        else None),
      dates = (\<lambda>n. \<lparr>toISOString = ''2025-01-01T00:00:00.'' @ show_nat (100 + n) @ ''Z'',
                      toLocaleTimeString = ''12:00:'' @ show_nat (10 + n) @ '' AM''\<rparr>)\<rparr>"

definition started :: controller where
  \<comment> \<open>The controller after the page has loaded.\<close>
  "started = initialize env0 (MotorController page0)"

definition pending :: controller where
  \<comment> \<open>A connection attempt is under way.\<close>
  "pending = connect env0 started"

definition connected :: controller where
  \<comment> \<open>The broker has accepted the connection.\<close>
  "connected = onSuccess env0 pending"

definition stale :: controller where
  \<comment> \<open>Two attempts were started; the later one was accepted and then disconnected by
      the user, after which the earlier one is accepted.\<close>
  "stale = onSuccess env0 (disconnect env0 (onSuccess env0 (connect env0 pending)))"

definition blank_url :: controller where
  \<comment> \<open>The broker field holds only white space.\<close>
  "blank_url = started\<lparr>elements := (elements started)\<lparr>brokerUrl_value := ''   ''\<rparr>\<rparr>"

definition ftp_url :: controller where
  \<comment> \<open>The broker field holds an address with a scheme the controller does not accept.\<close>
  "ftp_url = started\<lparr>elements := (elements started)\<lparr>brokerUrl_value := ''ftp://broker.hivemq.com''\<rparr>\<rparr>"

definition full_log :: controller where
  \<comment> \<open>The log pane holds 50 entries.\<close>
  "full_log =
     started\<lparr>elements := (elements started)
       \<lparr>statusLog := map (\<lambda>i. \<lparr>classList = [''log-entry''], textContent = show_nat i\<rparr>) [0..<50]\<rparr>\<rparr>"

definition blank_id :: controller where
  \<comment> \<open>The client field holds only white space.\<close>
  "blank_id = started\<lparr>elements := (elements started)\<lparr>clientId_value := [CHR 0x09, CHR 0x20]\<rparr>\<rparr>"

section \<open>What each step leaves alone\<close>

lemma addLogEntry_frame [simp]:
  "client (addLogEntry e m s) = client s"
  "isConnected (addLogEntry e m s) = isConnected s"
  "motorState (addLogEntry e m s) = motorState s"
  "calls (addLogEntry e m s) = calls s"
  "statusHistory (addLogEntry e m s) = statusHistory s"
  "dateCount (addLogEntry e m s) = Suc (dateCount s)"
  by (simp_all add: addLogEntry_def Let_def)

lemma addLogEntry_elements [simp]:
  "statusIndicator (elements (addLogEntry e m s)) = statusIndicator (elements s)"
  "statusText (elements (addLogEntry e m s)) = statusText (elements s)"
  "brokerUrl_value (elements (addLogEntry e m s)) = brokerUrl_value (elements s)"
  "clientId_value (elements (addLogEntry e m s)) = clientId_value (elements s)"
  "speedValue (elements (addLogEntry e m s)) = speedValue (elements s)"
  "speedSlider (elements (addLogEntry e m s)) = speedSlider (elements s)"
  "powerButton_text (elements (addLogEntry e m s)) = powerButton_text (elements s)"
  "powerStatus (elements (addLogEntry e m s)) = powerStatus (elements s)"
  "directionButton_text (elements (addLogEntry e m s)) = directionButton_text (elements s)"
  "directionStatus (elements (addLogEntry e m s)) = directionStatus (elements s)"
  "connectButton_text (elements (addLogEntry e m s)) = connectButton_text (elements s)"
  by (simp_all add: addLogEntry_def Let_def)

lemma updateUI_frame [simp]:
  "client (updateUI s) = client s"
  "isConnected (updateUI s) = isConnected s"
  "motorState (updateUI s) = motorState s"
  "calls (updateUI s) = calls s"
  "statusHistory (updateUI s) = statusHistory s"
  "dateCount (updateUI s) = dateCount s"
  by (simp_all add: updateUI_def Let_def)

lemma updateUI_elements [simp]:
  "statusLog (elements (updateUI s)) = statusLog (elements s)"
  "statusText (elements (updateUI s)) = statusText (elements s)"
  "statusIndicator (elements (updateUI s)) = statusIndicator (elements s)"
  "brokerUrl_value (elements (updateUI s)) = brokerUrl_value (elements s)"
  "clientId_value (elements (updateUI s)) = clientId_value (elements s)"
  by (simp_all add: updateUI_def Let_def)

lemma updateUI_shows [simp]:
  "speedValue (elements (updateUI s)) = show_int (speed (motorState s))"
  "speedSlider (elements (updateUI s)) = show_int (speed (motorState s))"
  "powerButton_text (elements (updateUI s)) = (if isOn (motorState s) then ''Turn Off'' else ''Turn On'')"
  "powerStatus (elements (updateUI s)) = (if isOn (motorState s) then ''Motor: ON'' else ''Motor: OFF'')"
  "directionButton_text (elements (updateUI s)) =
     (if direction (motorState s) = ''forward'' then ''Forward'' else ''Reverse'')"
  "directionStatus (elements (updateUI s)) =
     (if direction (motorState s) = ''forward'' then ''Direction: FORWARD'' else ''Direction: REVERSE'')"
  "connectButton_text (elements (updateUI s)) =
     (if isConnected s then ''Disconnect'' else ''Connect to MQTT'')"
  by (simp_all add: updateUI_def Let_def)

lemma updateConnectionStatus_frame [simp]:
  "client (updateConnectionStatus st s) = client s"
  "isConnected (updateConnectionStatus st s) = isConnected s"
  "motorState (updateConnectionStatus st s) = motorState s"
  "calls (updateConnectionStatus st s) = calls s"
  "dateCount (updateConnectionStatus st s) = dateCount s"
  "statusHistory (updateConnectionStatus st s) = statusHistory s @ [st]"
  "statusLog (elements (updateConnectionStatus st s)) = statusLog (elements s)"
  by (simp_all add: updateConnectionStatus_def Let_def)

lemma updateConnectionStatus_text:
  "statusText (elements (updateConnectionStatus st s)) =
     (if st = ''connected'' then ''Connected''
      else if st = ''connecting'' then ''Connecting...''
      else if st = ''error'' then ''Connection Error''
      else ''Disconnected'')"
  by (simp add: updateConnectionStatus_def Let_def)

lemma updateConnectionStatus_indicator:
  "st \<noteq> ''connected'' \<Longrightarrow>
   ''connected'' \<notin> set (statusIndicator (elements (updateConnectionStatus st s)))"
  by (simp add: updateConnectionStatus_def Let_def classList_remove_def)

lemma publishMotorState_frame [simp]:
  "client (publishMotorState e s) = client s"
  "isConnected (publishMotorState e s) = isConnected s"
  "motorState (publishMotorState e s) = motorState s"
  "elements (publishMotorState e s) = elements s"
  "statusHistory (publishMotorState e s) = statusHistory s"
  by (simp_all add: publishMotorState_def Let_def split: option.splits)

lemma subscribeToTopics_frame [simp]:
  "client (subscribeToTopics s) = client s"
  "isConnected (subscribeToTopics s) = isConnected s"
  "motorState (subscribeToTopics s) = motorState s"
  "elements (subscribeToTopics s) = elements s"
  "statusHistory (subscribeToTopics s) = statusHistory s"
  "dateCount (subscribeToTopics s) = dateCount s"
  by (simp_all add: subscribeToTopics_def split: option.splits)

lemma publishMotorState_calls:
  "calls (publishMotorState e s) =
     (case client s of
        None \<Rightarrow> calls s
      | Some c \<Rightarrow>
          if isConnected s
          then calls s @ [Publish c topics_motor
                 (JSON_stringify (motor_message (motorState s) (dates e (dateCount s)))) 0 False]
          else calls s)"
  by (simp add: publishMotorState_def Let_def split: option.splits)

lemma onSuccess_frame [simp]:
  "isConnected (onSuccess e s) = True"
  "client (onSuccess e s) = client s"
  "motorState (onSuccess e s) = motorState s"
  by (simp_all add: onSuccess_def)

lemma disconnect_frame [simp]:
  "isConnected (disconnect e s) = False"
  "client (disconnect e s) = (if isConnected s then None else client s)"
  "motorState (disconnect e s) = motorState s"
  by (simp_all add: disconnect_def Let_def split: option.splits)

lemma textContent_log_line [simp]:
  "textContent (log_line e m s) = ''['' @ toLocaleTimeString (dates e (dateCount s)) @ ''] '' @ m"
  by (simp add: log_line_def Let_def)

lemma started_facts:
  "motorState started = \<lparr>isOn = False, speed = 0, direction = ''forward''\<rparr>"
  "\<not> isConnected started"
  "dateCount started = 1"
  by (simp_all add: started_def initialize_def MotorController_def)

lemma pending_facts:
  "\<not> isConnected pending"
  "client pending = Some (Client ''broker.hivemq.com'' 8000 ''motor-panel'')"
  by code_simp+

lemma connected_facts:
  "isConnected connected"
  "client connected = Some (Client ''broker.hivemq.com'' 8000 ''motor-panel'')"
  "dateCount connected = 4"
  "motorState connected = \<lparr>isOn = False, speed = 0, direction = ''forward''\<rparr>"
  by code_simp+

lemma clock_facts:
  "toLocaleTimeString (dates env0 (Suc 0)) = ''12:00:11 AM''"
  "toLocaleTimeString (dates env0 (Suc (Suc 0))) = ''12:00:12 AM''"
  by code_simp+

section \<open>The motor state under the mutators\<close>

lemma motorState_setSpeed:
  "motorState (setSpeed e n s) = (motorState s)\<lparr>speed := max 0 (min 100 n)\<rparr>"
  by (simp add: setSpeed_def Let_def)

lemma motorState_toggleMotor:
  "motorState (toggleMotor e s) = (motorState s)\<lparr>isOn := \<not> isOn (motorState s)\<rparr>"
  by (simp add: toggleMotor_def Let_def)

lemma motorState_toggleDirection:
  "motorState (toggleDirection e s) =
     (motorState s)\<lparr>direction := (if direction (motorState s) = ''forward'' then ''reverse''
                                     else ''forward'')\<rparr>"
  by (simp add: toggleDirection_def Let_def)

text \<open>
  C1. For every integer \<open>n\<close>, every environment and every controller state, \<open>setSpeed n\<close>
  leaves the speed field of the motor state at \<open>n\<close> clamped into the interval from 0 to
  100, that is at \<open>max 0 (min 100 n)\<close>.
\<close>

theorem setSpeed_clamps:
  "speed (motorState (setSpeed e n s)) = max 0 (min 100 n)"
  by (simp add: motorState_setSpeed)

theorem setSpeed_clamps_witness:
  "speed (motorState (setSpeed env0 250 started)) = 100
   \<and> speed (motorState (setSpeed env0 (- 3) started)) = 0
   \<and> speed (motorState (setSpeed env0 42 started)) = 42"
  using setSpeed_clamps [of env0 250 started] setSpeed_clamps [of env0 "- 3" started]
    setSpeed_clamps [of env0 42 started]
  by simp

text \<open>
  C2. \<open>toggleMotor\<close> and \<open>toggleDirection\<close> are involutions on the motor state. Two calls
  of \<open>toggleMotor\<close> give back the motor state they started from, and one call negates
  \<open>isOn\<close> and keeps speed and direction. Two calls of \<open>toggleDirection\<close> give back the
  motor state they started from whenever its direction is one of the two values of the
  data model, \<open>forward\<close> and \<open>reverse\<close>; one call keeps \<open>isOn\<close> and speed. The two calls
  may see different environments.
\<close>

theorem toggles_are_involutions:
  "motorState (toggleMotor e' (toggleMotor e s)) = motorState s
   \<and> isOn (motorState (toggleMotor e s)) = (\<not> isOn (motorState s))
   \<and> speed (motorState (toggleMotor e s)) = speed (motorState s)
   \<and> direction (motorState (toggleMotor e s)) = direction (motorState s)
   \<and> (direction (motorState s) = ''forward'' \<or> direction (motorState s) = ''reverse''
        \<longrightarrow> motorState (toggleDirection e' (toggleDirection e s)) = motorState s)
   \<and> isOn (motorState (toggleDirection e s)) = isOn (motorState s)
   \<and> speed (motorState (toggleDirection e s)) = speed (motorState s)"
  by (auto simp add: motorState_toggleMotor motorState_toggleDirection)

theorem toggles_are_involutions_witness:
  "(direction (motorState started) = ''forward'' \<or> direction (motorState started) = ''reverse'')
   \<and> motorState (toggleMotor env0 started) = \<lparr>isOn = True, speed = 0, direction = ''forward''\<rparr>
   \<and> motorState (toggleMotor env0 (toggleMotor env0 started)) =
       \<lparr>isOn = False, speed = 0, direction = ''forward''\<rparr>
   \<and> motorState (toggleDirection env0 started) =
       \<lparr>isOn = False, speed = 0, direction = ''reverse''\<rparr>
   \<and> motorState (toggleDirection env0 (toggleDirection env0 started)) =
       \<lparr>isOn = False, speed = 0, direction = ''forward''\<rparr>"
proof -
  have h: "direction (motorState started) = ''forward'' \<or> direction (motorState started) = ''reverse''"
    by (simp add: started_facts)
  have a: "motorState (toggleMotor env0 started) = \<lparr>isOn = True, speed = 0, direction = ''forward''\<rparr>"
    by (simp add: motorState_toggleMotor started_facts)
  have b: "motorState (toggleDirection env0 started) =
      \<lparr>isOn = False, speed = 0, direction = ''reverse''\<rparr>"
    by (simp add: motorState_toggleDirection started_facts)
  from toggles_are_involutions [of env0 env0 started] h a b show ?thesis
    by (simp add: started_facts)
qed

lemma mutate_keeps_range:
  assumes "direction (motorState s) = ''forward'' \<or> direction (motorState s) = ''reverse''"
    and "0 \<le> speed (motorState s)" and "speed (motorState s) \<le> 100"
  shows "(direction (motorState (mutate e m s)) = ''forward''
            \<or> direction (motorState (mutate e m s)) = ''reverse'')
       \<and> 0 \<le> speed (motorState (mutate e m s)) \<and> speed (motorState (mutate e m s)) \<le> 100"
  using assms
  by (cases m) (auto simp add: motorState_setSpeed motorState_toggleMotor motorState_toggleDirection)

lemma mutate_all_keeps_range:
  "direction (motorState s) = ''forward'' \<or> direction (motorState s) = ''reverse'' \<Longrightarrow>
   0 \<le> speed (motorState s) \<Longrightarrow> speed (motorState s) \<le> 100 \<Longrightarrow>
   (direction (motorState (mutate_all e ms s)) = ''forward''
      \<or> direction (motorState (mutate_all e ms s)) = ''reverse'')
   \<and> 0 \<le> speed (motorState (mutate_all e ms s)) \<and> speed (motorState (mutate_all e ms s)) \<le> 100"
proof (induction ms arbitrary: s)
  case Nil
  then show ?case by simp
next
  case (Cons m ms)
  from mutate_keeps_range [OF Cons.prems, of e m]
  have "direction (motorState (mutate e m s)) = ''forward''
          \<or> direction (motorState (mutate e m s)) = ''reverse''"
    and "0 \<le> speed (motorState (mutate e m s))" and "speed (motorState (mutate e m s)) \<le> 100"
    by blast+
  then show ?case using Cons.IH [of "mutate e m s"] by simp
qed

text \<open>
  C10. Starting from the motor state the constructor sets up (off, speed 0, direction
  \<open>forward\<close>), on any page, after any sequence of \<open>setSpeed\<close> with integer arguments,
  \<open>toggleMotor\<close> and \<open>toggleDirection\<close>, the direction is \<open>forward\<close> or \<open>reverse\<close> and the
  speed is an integer from 0 to 100.
\<close>

theorem motor_state_stays_valid:
  "(direction (motorState (mutate_all e ms (MotorController page))) = ''forward''
      \<or> direction (motorState (mutate_all e ms (MotorController page))) = ''reverse'')
   \<and> 0 \<le> speed (motorState (mutate_all e ms (MotorController page)))
   \<and> speed (motorState (mutate_all e ms (MotorController page))) \<le> 100"
  by (rule mutate_all_keeps_range) (simp_all add: MotorController_def)

theorem motor_state_stays_valid_witness:
  "motorState
     (mutate_all env0
        [SetSpeed 250, ToggleDirection, ToggleMotor, SetSpeed (- 5), ToggleDirection, ToggleDirection]
        (MotorController page0)) = \<lparr>isOn = True, speed = 0, direction = ''reverse''\<rparr>"
proof -
  have "motorState
     (mutate_all env0
        [SetSpeed 250, ToggleDirection, ToggleMotor, SetSpeed (- 5), ToggleDirection, ToggleDirection]
        (MotorController page0)) = \<lparr>isOn = True, speed = 0, direction = ''reverse''\<rparr>"
    by (simp add: motorState_setSpeed motorState_toggleMotor motorState_toggleDirection
          MotorController_def)
  with motor_state_stays_valid
    [of env0 "[SetSpeed 250, ToggleDirection, ToggleMotor, SetSpeed (- 5), ToggleDirection, ToggleDirection]" page0]
  show ?thesis by simp
qed

section \<open>The log pane\<close>

lemma filter_remove_first: "filter P (remove_first P xs) = tl (filter P xs)"
  by (induction xs) auto

lemma remove_first_keeps_others: "filter (\<lambda>x. \<not> P x) (remove_first P xs) = filter (\<lambda>x. \<not> P x) xs"
  by (induction xs) auto

lemma remove_first_snoc:
  "filter P xs \<noteq> [] \<Longrightarrow> remove_first P (xs @ [x]) = remove_first P xs @ [x]"
  by (induction xs) auto

lemma is_log_entry_log_line [simp]: "is_log_entry (log_line e m s)"
  by (simp add: is_log_entry_def log_line_def Let_def)

lemma statusLog_addLogEntry:
  "statusLog (elements (addLogEntry e m s)) =
     (if length (log_entries s) \<ge> 50
      then remove_first is_log_entry (statusLog (elements s)) @ [log_line e m s]
      else statusLog (elements s) @ [log_line e m s])"
proof (cases "length (log_entries s) \<ge> 50")
  case True
  then have "filter is_log_entry (statusLog (elements s)) \<noteq> []"
    by (auto simp: log_entries_def)
  then have "remove_first is_log_entry (statusLog (elements s) @ [log_line e m s]) =
      remove_first is_log_entry (statusLog (elements s)) @ [log_line e m s]"
    by (rule remove_first_snoc)
  with True show ?thesis
    using is_log_entry_log_line [of e m s]
    by (simp add: addLogEntry_def Let_def log_entries_def log_line_def)
next
  case False
  then show ?thesis
    using is_log_entry_log_line [of e m s]
    by (simp add: addLogEntry_def Let_def log_entries_def log_line_def)
qed

lemma last_statusLog_addLogEntry [simp]:
  "last (statusLog (elements (addLogEntry e m s))) = log_line e m s"
  by (simp add: statusLog_addLogEntry)

lemma log_entries_addLogEntry:
  "log_entries (addLogEntry e m s) =
     (if length (log_entries s @ [log_line e m s]) > 50
      then tl (log_entries s @ [log_line e m s])
      else log_entries s @ [log_line e m s])"
proof -
  have "log_entries (addLogEntry e m s) =
     (if length (log_entries s) \<ge> 50
      then tl (log_entries s) @ [log_line e m s]
      else log_entries s @ [log_line e m s])"
    unfolding log_entries_def [of "addLogEntry e m s"] statusLog_addLogEntry
    by (simp add: filter_remove_first log_entries_def)
  moreover have "length (log_entries s) \<ge> 50 \<Longrightarrow> log_entries s \<noteq> []" by auto
  ultimately show ?thesis by auto
qed

text \<open>
  C3. Whenever the log buffer holds at most 50 entries, \<open>addLogEntry\<close> appends the new
  entry and, if that makes 51, drops exactly the oldest one: the buffer afterwards is
  the old one with the new entry at the end, less its head when it had 50 entries. So
  it holds at most 50 entries again, the new entry is the last one, and the children
  of the pane that are not log entries are left as they were.
\<close>

theorem addLogEntry_capped:
  assumes "length (log_entries s) \<le> 50"
  shows "log_entries (addLogEntry e message s) =
           (if length (log_entries s @ [log_line e message s]) > 50
            then tl (log_entries s @ [log_line e message s])
            else log_entries s @ [log_line e message s])
         \<and> length (log_entries (addLogEntry e message s)) \<le> 50
         \<and> last (log_entries (addLogEntry e message s)) = log_line e message s
         \<and> filter (\<lambda>n. \<not> is_log_entry n) (statusLog (elements (addLogEntry e message s))) =
             filter (\<lambda>n. \<not> is_log_entry n) (statusLog (elements s))"
proof -
  let ?es = "log_entries s @ [log_line e message s]"
  have eq: "log_entries (addLogEntry e message s) = (if length ?es > 50 then tl ?es else ?es)"
    by (rule log_entries_addLogEntry)
  have len: "length (log_entries (addLogEntry e message s)) \<le> 50"
    using assms by (simp add: eq)
  have lst: "last (log_entries (addLogEntry e message s)) = log_line e message s"
  proof (cases "length ?es > 50")
    case True
    then have "tl ?es \<noteq> []" by (cases "log_entries s") auto
    then have "last (tl ?es) = last ?es" by (simp add: last_tl)
    with True show ?thesis by (simp add: eq)
  next
    case False
    then show ?thesis by (simp add: eq)
  qed
  have oth: "filter (\<lambda>n. \<not> is_log_entry n) (statusLog (elements (addLogEntry e message s))) =
             filter (\<lambda>n. \<not> is_log_entry n) (statusLog (elements s))"
    by (simp add: statusLog_addLogEntry remove_first_keeps_others)
  from eq len lst oth show ?thesis by blast
qed

lemma full_log_entries:
  "log_entries full_log = map (\<lambda>i. \<lparr>classList = [''log-entry''], textContent = show_nat i\<rparr>) [0..<50]"
  by (simp add: full_log_def log_entries_def is_log_entry_def)

theorem addLogEntry_capped_witness:
  "length (log_entries full_log) \<le> 50
   \<and> length (log_entries (addLogEntry env0 ''Motor turned ON'' full_log)) = 50
   \<and> hd (log_entries (addLogEntry env0 ''Motor turned ON'' full_log)) =
       \<lparr>classList = [''log-entry''], textContent = ''1''\<rparr>
   \<and> last (log_entries (addLogEntry env0 ''Motor turned ON'' full_log)) =
       \<lparr>classList = [''log-entry''], textContent = ''[12:00:11 AM] Motor turned ON''\<rparr>"
proof -
  let ?s' = "addLogEntry env0 ''Motor turned ON'' full_log"
  let ?l = "log_line env0 ''Motor turned ON'' full_log"
  have len: "length (log_entries full_log) = 50" by (simp add: full_log_entries)
  then have h: "length (log_entries full_log) \<le> 50" by simp
  note cap = addLogEntry_capped [OF h, of env0 "''Motor turned ON''"]
  have d: "dateCount full_log = 1"
    by (simp add: full_log_def started_def initialize_def MotorController_def)
  have l: "?l = \<lparr>classList = [''log-entry''], textContent = ''[12:00:11 AM] Motor turned ON''\<rparr>"
    by (simp add: log_line_def Let_def d env0_def show_nat.simps)
  have u: "[0..<50] = 0 # 1 # [2..<50]" by (simp add: upt_conv_Cons)
  have t: "tl (log_entries full_log) =
      \<lparr>classList = [''log-entry''], textContent = ''1''\<rparr> #
      map (\<lambda>i. \<lparr>classList = [''log-entry''], textContent = show_nat i\<rparr>) [2..<50]"
    unfolding full_log_entries u by (simp add: show_nat.simps)
  from len have ne: "log_entries full_log \<noteq> []" by auto
  from cap [THEN conjunct1] len have eq: "log_entries ?s' = tl (log_entries full_log @ [?l])" by simp
  with ne have eq': "log_entries ?s' = tl (log_entries full_log) @ [?l]" by simp
  have c2: "length (log_entries ?s') = 50" using len by (simp add: eq')
  have c3: "hd (log_entries ?s') = \<lparr>classList = [''log-entry''], textContent = ''1''\<rparr>"
    by (simp add: eq' t)
  have c4: "last (log_entries ?s') = \<lparr>classList = [''log-entry''], textContent = ''[12:00:11 AM] Motor turned ON''\<rparr>"
    using cap [THEN conjunct2, THEN conjunct2, THEN conjunct1] l by simp
  from h c2 c3 c4 show ?thesis by blast
qed

section \<open>Publishing the motor state\<close>

lemma mutate_motorState:
  "motorState (mutate e m s) =
     (case m of
        SetSpeed n \<Rightarrow> (motorState s)\<lparr>speed := max 0 (min 100 n)\<rparr>
      | ToggleMotor \<Rightarrow> (motorState s)\<lparr>isOn := \<not> isOn (motorState s)\<rparr>
      | ToggleDirection \<Rightarrow>
          (motorState s)\<lparr>direction := (if direction (motorState s) = ''forward'' then ''reverse''
                                          else ''forward'')\<rparr>)"
  by (cases m) (simp_all add: motorState_setSpeed motorState_toggleMotor motorState_toggleDirection)

lemma mutate_calls:
  "calls (mutate e m s) =
     (case client s of
        None \<Rightarrow> calls s
      | Some c \<Rightarrow>
          if isConnected s
          then calls s @ [Publish c topics_motor
                 (JSON_stringify (motor_message (motorState (mutate e m s)) (dates e (dateCount s))))
                 0 False]
          else calls s)"
  by (cases m)
     (simp_all add: setSpeed_def toggleMotor_def toggleDirection_def Let_def publishMotorState_calls
        split: option.splits)

lemma mutate_elements:
  "speedValue (elements (mutate e m s)) = show_int (speed (motorState (mutate e m s)))"
  "speedSlider (elements (mutate e m s)) = show_int (speed (motorState (mutate e m s)))"
  "powerButton_text (elements (mutate e m s)) =
     (if isOn (motorState (mutate e m s)) then ''Turn Off'' else ''Turn On'')"
  "powerStatus (elements (mutate e m s)) =
     (if isOn (motorState (mutate e m s)) then ''Motor: ON'' else ''Motor: OFF'')"
  "directionButton_text (elements (mutate e m s)) =
     (if direction (motorState (mutate e m s)) = ''forward'' then ''Forward'' else ''Reverse'')"
  "directionStatus (elements (mutate e m s)) =
     (if direction (motorState (mutate e m s)) = ''forward'' then ''Direction: FORWARD''
      else ''Direction: REVERSE'')"
  by (cases m; simp add: setSpeed_def toggleMotor_def toggleDirection_def Let_def)+

text \<open>
  C7, as the code has it. For every controller state and every mutator (\<open>setSpeed\<close>,
  \<open>toggleMotor\<close>, \<open>toggleDirection\<close>): the motor state is updated; the speed display and
  slider, the power button and status, and the direction button and status show the
  new motor state, whether or not the controller is connected; and the new state is
  published, as one message on the motor topic with qos 0 and not retained, if and
  only if \<open>isConnected\<close> is true and a client handle is stored. In every other state no
  call is made on a client.
\<close>

theorem mutators_update_refresh_publish:
  "motorState (mutate e m s) =
     (case m of
        SetSpeed n \<Rightarrow> (motorState s)\<lparr>speed := max 0 (min 100 n)\<rparr>
      | ToggleMotor \<Rightarrow> (motorState s)\<lparr>isOn := \<not> isOn (motorState s)\<rparr>
      | ToggleDirection \<Rightarrow>
          (motorState s)\<lparr>direction := (if direction (motorState s) = ''forward'' then ''reverse''
                                          else ''forward'')\<rparr>)
   \<and> speedValue (elements (mutate e m s)) = show_int (speed (motorState (mutate e m s)))
   \<and> speedSlider (elements (mutate e m s)) = show_int (speed (motorState (mutate e m s)))
   \<and> powerButton_text (elements (mutate e m s)) =
       (if isOn (motorState (mutate e m s)) then ''Turn Off'' else ''Turn On'')
   \<and> powerStatus (elements (mutate e m s)) =
       (if isOn (motorState (mutate e m s)) then ''Motor: ON'' else ''Motor: OFF'')
   \<and> directionButton_text (elements (mutate e m s)) =
       (if direction (motorState (mutate e m s)) = ''forward'' then ''Forward'' else ''Reverse'')
   \<and> directionStatus (elements (mutate e m s)) =
       (if direction (motorState (mutate e m s)) = ''forward'' then ''Direction: FORWARD''
        else ''Direction: REVERSE'')
   \<and> (\<exists>payload.
        calls (mutate e m s) =
          (case client s of
             None \<Rightarrow> calls s
           | Some c \<Rightarrow> if isConnected s then calls s @ [Publish c topics_motor payload 0 False]
                       else calls s))
   \<and> (calls (mutate e m s) \<noteq> calls s) = (isConnected s \<and> client s \<noteq> None)"
proof -
  have pub: "(calls (mutate e m s) \<noteq> calls s) = (isConnected s \<and> client s \<noteq> None)"
    by (simp add: mutate_calls split: option.splits)
  have ex: "\<exists>payload.
        calls (mutate e m s) =
          (case client s of
             None \<Rightarrow> calls s
           | Some c \<Rightarrow> if isConnected s then calls s @ [Publish c topics_motor payload 0 False]
                       else calls s)"
    by (rule exI [of _ "JSON_stringify (motor_message (motorState (mutate e m s)) (dates e (dateCount s)))"])
       (rule mutate_calls)
  show ?thesis
    using pub ex mutate_motorState [of e m s]
    by (simp only: mutate_elements simp_thms)
qed

theorem mutators_update_refresh_publish_witness:
  "\<not> isConnected started
   \<and> motorState (mutate env0 (SetSpeed 50) started) =
       \<lparr>isOn = False, speed = 50, direction = ''forward''\<rparr>
   \<and> speedValue (elements (mutate env0 (SetSpeed 50) started)) = ''50''
   \<and> powerStatus (elements (mutate env0 (SetSpeed 50) started)) = ''Motor: OFF''
   \<and> calls (mutate env0 (SetSpeed 50) started) = calls started"
proof -
  have m: "motorState (mutate env0 (SetSpeed 50) started) =
      \<lparr>isOn = False, speed = 50, direction = ''forward''\<rparr>"
    by (simp add: motorState_setSpeed started_facts)
  have sh: "show_int 50 = ''50''" by code_simp
  from mutators_update_refresh_publish [of env0 "SetSpeed 50" started] m sh started_facts(2)
  show ?thesis by (simp del: mutate.simps)
qed

text \<open>
  Against C7 as stated (published if and only if \<open>isConnected\<close> is true): two connection
  attempts are started, the later one is accepted and the user disconnects it, then the
  earlier one is accepted. Now \<open>isConnected\<close> is true and no handle is stored, and no
  mutator publishes.
\<close>

theorem publish_iff_connected_counterexample:
  "isConnected stale \<and> client stale = None
   \<and> calls (mutate env0 (SetSpeed 50) stale) = calls stale
   \<and> calls (mutate env0 ToggleMotor stale) = calls stale
   \<and> calls (mutate env0 ToggleDirection stale) = calls stale"
proof -
  have c: "client stale = None" by (simp add: stale_def)
  have i: "isConnected stale" by (simp add: stale_def)
  from c i show ?thesis by (simp add: mutate_calls del: mutate.simps)
qed

text \<open>
  C8. Whenever the controller is connected (\<open>isConnected\<close> is true and \<open>c\<close> is the stored
  handle), each mutator makes exactly one call, a publish on the motor topic whose
  payload is \<open>JSON.stringify\<close> of the object with the four properties \<open>isOn\<close>, \<open>speed\<close>,
  \<open>direction\<close> and \<open>timestamp\<close>, in this order, where the first three are the fields of
  the motor state after the mutation and the fourth is the ISO time read from the clock.
\<close>

theorem published_message_is_motor_state:
  assumes "isConnected s" and "client s = Some c"
  shows "calls (mutate e m s) =
           calls s @
           [Publish c topics_motor
              (JSON_stringify
                 [(''isOn'', JBoolean (isOn (motorState (mutate e m s)))),
                  (''speed'', JNumber (speed (motorState (mutate e m s)))),
                  (''direction'', JString (direction (motorState (mutate e m s)))),
                  (''timestamp'', JString (toISOString (dates e (dateCount s))))])
              0 False]"
  using assms by (simp add: mutate_calls motor_message_def del: mutate.simps)

theorem published_message_is_motor_state_witness:
  \<open>isConnected connected
   \<and> client connected = Some (Client ''broker.hivemq.com'' 8000 ''motor-panel'')
   \<and> calls (mutate env0 (SetSpeed 50) connected) =
       calls connected @
       [Publish (Client ''broker.hivemq.com'' 8000 ''motor-panel'') ''akuri/motor/control''
          ''{"isOn":false,"speed":50,"direction":"forward","timestamp":"2025-01-01T00:00:00.104Z"}''
          0 False]\<close>
proof -
  have p: \<open>JSON_stringify
       [(''isOn'', JBoolean False), (''speed'', JNumber 50), (''direction'', JString ''forward''),
        (''timestamp'', JString (toISOString (dates env0 4)))] =
     ''{"isOn":false,"speed":50,"direction":"forward","timestamp":"2025-01-01T00:00:00.104Z"}''\<close>
    by code_simp
  have m: "motorState (mutate env0 (SetSpeed 50) connected) =
      \<lparr>isOn = False, speed = 50, direction = ''forward''\<rparr>"
    by (simp add: motorState_setSpeed connected_facts)
  from published_message_is_motor_state [OF connected_facts(1) connected_facts(2), of env0 "SetSpeed 50"]
  show ?thesis
    by (simp add: m p connected_facts topics_motor_def del: mutate.simps)
qed

section \<open>Connecting\<close>

lemma parse_broker_unsupported:
  "\<not> startsWith b ''ws://'' \<Longrightarrow> \<not> startsWith b ''wss://'' \<Longrightarrow> \<not> startsWith b ''mqtt://'' \<Longrightarrow>
   parse_broker e b = Inl ''Unsupported protocol. Use ws://, wss://, or mqtt://''"
  by (simp add: parse_broker_def)

lemma connect_try_unsupported:
  assumes "\<not> startsWith b ''ws://''" "\<not> startsWith b ''wss://''" "\<not> startsWith b ''mqtt://''"
  shows "connect_try e b c s =
     (if pahoLoaded e
      then Inl (''Unsupported protocol. Use ws://, wss://, or mqtt://'',
                updateConnectionStatus ''connecting''
                  (addLogEntry e (''Connecting to MQTT broker: '' @ b) s))
      else Inl (''Paho MQTT library not loaded'', s))"
  by (simp add: connect_try_def Let_def parse_broker_unsupported [OF assms])

lemma connect_try_thrown:
  assumes "connect_try e b c s = Inl (msg, s')"
  shows "isConnected s' = isConnected s \<and> motorState s' = motorState s \<and> calls s' = calls s
       \<and> (statusHistory s' = statusHistory s \<or> statusHistory s' = statusHistory s @ [''connecting''])"
  using assms
  by (auto simp add: connect_try_def Let_def split: if_splits sum.splits prod.splits option.splits)

lemma connect_missing_url:
  assumes "trim (brokerUrl_value (elements s)) = []"
  shows "connect e s = addLogEntry e ''Error: Please enter a broker URL'' s"
  using assms by (simp add: connect_def Let_def)

lemma connect_missing_id:
  assumes "trim (brokerUrl_value (elements s)) \<noteq> []" "trim (clientId_value (elements s)) = []"
  shows "connect e s = addLogEntry e ''Error: Please enter a client ID'' s"
  using assms by (simp add: connect_def Let_def)

lemma connect_thrown:
  assumes "trim (brokerUrl_value (elements s)) \<noteq> []" "trim (clientId_value (elements s)) \<noteq> []"
    and "connect_try e (trim (brokerUrl_value (elements s))) (trim (clientId_value (elements s))) s
           = Inl (msg, s')"
  shows "connect e s =
           updateConnectionStatus ''error'' (addLogEntry e (''Connection failed: '' @ msg) s')"
  using assms by (simp add: connect_def Let_def)

lemma onFailure_reported:
  "statusHistory (onFailure e msg s) = statusHistory s @ [''error'']"
  "statusText (elements (onFailure e msg s)) = ''Connection Error''"
  "last (statusLog (elements (onFailure e msg s))) = log_line e (''Connection failed: '' @ msg) s"
  "isConnected (onFailure e msg s) = isConnected s"
  by (simp_all add: onFailure_def updateConnectionStatus_text)

lemma ftp_url_facts:
  "trim (brokerUrl_value (elements ftp_url)) = ''ftp://broker.hivemq.com''"
  "trim (clientId_value (elements ftp_url)) = ''motor-panel''"
  "isConnected ftp_url = False"
  "statusHistory ftp_url = []"
  "dateCount ftp_url = 1"
  by code_simp+

lemma blank_url_facts:
  "trim (brokerUrl_value (elements blank_url)) = []"
  "statusHistory blank_url = []"
  "statusText (elements blank_url) = ''Disconnected''"
  "dateCount blank_url = 1"
  by code_simp+

lemma blank_id_facts:
  "trim (brokerUrl_value (elements blank_id)) \<noteq> []"
  "trim (clientId_value (elements blank_id)) = []"
  "statusHistory blank_id = []"
  "dateCount blank_id = 1"
  by code_simp+

text \<open>
  C4. Let the broker URL, trimmed, be non-empty and start with none of \<open>ws://\<close>,
  \<open>wss://\<close> and \<open>mqtt://\<close>, and let the trimmed client ID be non-empty. Then \<open>connect\<close>
  fails without the connection state becoming connected: \<open>isConnected\<close> is what it was
  (so it stays false), the stored handle is what it was, no call is made on a client,
  the status indicator is set to \<open>connecting\<close> and then \<open>error\<close> (to \<open>error\<close> only, when
  the Paho library is not loaded) and never to \<open>connected\<close>, and it ends showing the
  connection error without the class \<open>connected\<close>.
\<close>

theorem unsupported_scheme_never_connects:
  assumes "b = trim (brokerUrl_value (elements s))" and "b \<noteq> []"
    and "\<not> startsWith b ''ws://''" and "\<not> startsWith b ''wss://''" and "\<not> startsWith b ''mqtt://''"
    and "trim (clientId_value (elements s)) \<noteq> []"
  shows "isConnected (connect e s) = isConnected s
       \<and> client (connect e s) = client s
       \<and> calls (connect e s) = calls s
       \<and> statusHistory (connect e s) =
           statusHistory s @ (if pahoLoaded e then [''connecting'', ''error''] else [''error''])
       \<and> statusText (elements (connect e s)) = ''Connection Error''
       \<and> ''connected'' \<notin> set (statusIndicator (elements (connect e s)))"
proof -
  let ?c = "trim (clientId_value (elements s))"
  let ?s2 = "updateConnectionStatus ''connecting''
      (addLogEntry e (''Connecting to MQTT broker: '' @ b) s)"
  have tr: "connect_try e b ?c s =
     (if pahoLoaded e then Inl (''Unsupported protocol. Use ws://, wss://, or mqtt://'', ?s2)
      else Inl (''Paho MQTT library not loaded'', s))"
    using assms(3-5) by (rule connect_try_unsupported)
  show ?thesis
  proof (cases "pahoLoaded e")
    case True
    with tr have "connect_try e b ?c s =
        Inl (''Unsupported protocol. Use ws://, wss://, or mqtt://'', ?s2)"
      by simp
    with assms have "connect e s = updateConnectionStatus ''error''
        (addLogEntry e
           (''Connection failed: '' @ ''Unsupported protocol. Use ws://, wss://, or mqtt://'') ?s2)"
      by (simp add: connect_thrown)
    with True show ?thesis
      by (simp add: updateConnectionStatus_text updateConnectionStatus_indicator)
  next
    case False
    with tr have "connect_try e b ?c s = Inl (''Paho MQTT library not loaded'', s)" by simp
    with assms have "connect e s = updateConnectionStatus ''error''
        (addLogEntry e (''Connection failed: '' @ ''Paho MQTT library not loaded'') s)"
      by (simp add: connect_thrown)
    with False show ?thesis
      by (simp add: updateConnectionStatus_text updateConnectionStatus_indicator)
  qed
qed

theorem unsupported_scheme_never_connects_witness:
  "trim (brokerUrl_value (elements ftp_url)) = ''ftp://broker.hivemq.com''
   \<and> \<not> startsWith ''ftp://broker.hivemq.com'' ''ws://''
   \<and> \<not> startsWith ''ftp://broker.hivemq.com'' ''wss://''
   \<and> \<not> startsWith ''ftp://broker.hivemq.com'' ''mqtt://''
   \<and> trim (clientId_value (elements ftp_url)) \<noteq> []
   \<and> \<not> isConnected (connect env0 ftp_url)
   \<and> statusHistory (connect env0 ftp_url) = [''connecting'', ''error'']
   \<and> statusText (elements (connect env0 ftp_url)) = ''Connection Error''"
proof -
  have b: "''ftp://broker.hivemq.com'' = trim (brokerUrl_value (elements ftp_url))"
    by (simp add: ftp_url_facts)
  have n: "''ftp://broker.hivemq.com'' \<noteq> []" by simp
  have w1: "\<not> startsWith ''ftp://broker.hivemq.com'' ''ws://''" by (simp add: startsWith_def)
  have w2: "\<not> startsWith ''ftp://broker.hivemq.com'' ''wss://''" by (simp add: startsWith_def)
  have w3: "\<not> startsWith ''ftp://broker.hivemq.com'' ''mqtt://''" by (simp add: startsWith_def)
  have c: "trim (clientId_value (elements ftp_url)) \<noteq> []" by (simp add: ftp_url_facts)
  have p: "pahoLoaded env0" by (simp add: env0_def)
  from unsupported_scheme_never_connects [OF b n w1 w2 w3 c, of env0] w1 w2 w3 c p
  show ?thesis by (simp add: ftp_url_facts)
qed

text \<open>
  C6, as the code has it. When the \<open>try\<close> block of \<open>connect\<close> throws an error with
  message \<open>msg\<close> in state \<open>s'\<close> (the Paho library is not loaded, the scheme is not
  supported, or \<open>URL\<close>, \<open>Paho.Client\<close> or \<open>client.connect\<close> throws), the status is set
  to \<open>error\<close> and the line \<open>Connection failed: msg\<close> is appended to the log; the failure
  callback of the session does the same with the message of the broker's error. When
  the trimmed broker URL is empty, or it is not and the trimmed client ID is empty,
  \<open>connect\<close> appends the line asking for the missing input to the log and leaves the
  connection status as it was.
\<close>

theorem connect_failures_are_reported:
  "(connect_try e (trim (brokerUrl_value (elements s))) (trim (clientId_value (elements s))) s
      = Inl (msg, s')
      \<and> trim (brokerUrl_value (elements s)) \<noteq> [] \<and> trim (clientId_value (elements s)) \<noteq> []
    \<longrightarrow> statusHistory (connect e s) = statusHistory s' @ [''error'']
        \<and> statusText (elements (connect e s)) = ''Connection Error''
        \<and> last (statusLog (elements (connect e s))) = log_line e (''Connection failed: '' @ msg) s'
        \<and> isConnected (connect e s) = isConnected s)
   \<and> (statusHistory (onFailure e errorMessage s) = statusHistory s @ [''error'']
        \<and> statusText (elements (onFailure e errorMessage s)) = ''Connection Error''
        \<and> last (statusLog (elements (onFailure e errorMessage s))) =
            log_line e (''Connection failed: '' @ errorMessage) s
        \<and> isConnected (onFailure e errorMessage s) = isConnected s)
   \<and> (trim (brokerUrl_value (elements s)) = []
    \<longrightarrow> last (statusLog (elements (connect e s))) = log_line e ''Error: Please enter a broker URL'' s
        \<and> statusHistory (connect e s) = statusHistory s
        \<and> statusText (elements (connect e s)) = statusText (elements s)
        \<and> statusIndicator (elements (connect e s)) = statusIndicator (elements s))
   \<and> (trim (brokerUrl_value (elements s)) \<noteq> [] \<and> trim (clientId_value (elements s)) = []
    \<longrightarrow> last (statusLog (elements (connect e s))) = log_line e ''Error: Please enter a client ID'' s
        \<and> statusHistory (connect e s) = statusHistory s
        \<and> statusText (elements (connect e s)) = statusText (elements s)
        \<and> statusIndicator (elements (connect e s)) = statusIndicator (elements s))"
proof (intro conjI impI)
  assume a: "connect_try e (trim (brokerUrl_value (elements s))) (trim (clientId_value (elements s))) s
      = Inl (msg, s')
      \<and> trim (brokerUrl_value (elements s)) \<noteq> [] \<and> trim (clientId_value (elements s)) \<noteq> []"
  then have c: "connect e s =
      updateConnectionStatus ''error'' (addLogEntry e (''Connection failed: '' @ msg) s')"
    by (simp add: connect_thrown)
  from a have f: "isConnected s' = isConnected s"
    using connect_try_thrown by blast
  show "statusHistory (connect e s) = statusHistory s' @ [''error'']" by (simp add: c)
  show "statusText (elements (connect e s)) = ''Connection Error''"
    by (simp add: c updateConnectionStatus_text)
  show "last (statusLog (elements (connect e s))) = log_line e (''Connection failed: '' @ msg) s'"
    by (simp add: c)
  show "isConnected (connect e s) = isConnected s" by (simp add: c f)
next
  assume a: "trim (brokerUrl_value (elements s)) = []"
  then have c: "connect e s = addLogEntry e ''Error: Please enter a broker URL'' s"
    by (rule connect_missing_url)
  show "last (statusLog (elements (connect e s))) = log_line e ''Error: Please enter a broker URL'' s"
    by (simp add: c)
  show "statusHistory (connect e s) = statusHistory s" by (simp add: c)
  show "statusText (elements (connect e s)) = statusText (elements s)" by (simp add: c)
  show "statusIndicator (elements (connect e s)) = statusIndicator (elements s)" by (simp add: c)
next
  assume a: "trim (brokerUrl_value (elements s)) \<noteq> [] \<and> trim (clientId_value (elements s)) = []"
  then have c: "connect e s = addLogEntry e ''Error: Please enter a client ID'' s"
    by (simp add: connect_missing_id)
  show "last (statusLog (elements (connect e s))) = log_line e ''Error: Please enter a client ID'' s"
    by (simp add: c)
  show "statusHistory (connect e s) = statusHistory s" by (simp add: c)
  show "statusText (elements (connect e s)) = statusText (elements s)" by (simp add: c)
  show "statusIndicator (elements (connect e s)) = statusIndicator (elements s)" by (simp add: c)
qed (simp_all add: onFailure_reported)

theorem connect_failures_are_reported_witness:
  "trim (brokerUrl_value (elements ftp_url)) = ''ftp://broker.hivemq.com''
   \<and> trim (clientId_value (elements ftp_url)) = ''motor-panel''
   \<and> trim (brokerUrl_value (elements blank_url)) = []
   \<and> trim (clientId_value (elements blank_id)) = []
   \<and> statusHistory (connect env0 ftp_url) = [''connecting'', ''error'']
   \<and> statusText (elements (connect env0 ftp_url)) = ''Connection Error''
   \<and> textContent (last (statusLog (elements (connect env0 ftp_url)))) =
       ''[12:00:12 AM] Connection failed: Unsupported protocol. Use ws://, wss://, or mqtt://''
   \<and> textContent (last (statusLog (elements (connect env0 blank_url)))) =
       ''[12:00:11 AM] Error: Please enter a broker URL''
   \<and> statusHistory (connect env0 blank_url) = statusHistory blank_url
   \<and> textContent (last (statusLog (elements (connect env0 blank_id)))) =
       ''[12:00:11 AM] Error: Please enter a client ID''
   \<and> statusHistory (connect env0 blank_id) = statusHistory blank_id
   \<and> statusText (elements (onFailure env0 ''timed out'' pending)) = ''Connection Error''"
proof -
  let ?s2 = "updateConnectionStatus ''connecting''
      (addLogEntry env0 (''Connecting to MQTT broker: '' @ ''ftp://broker.hivemq.com'') ftp_url)"
  let ?msg = "''Unsupported protocol. Use ws://, wss://, or mqtt://''"
  have t: "connect_try env0 (trim (brokerUrl_value (elements ftp_url)))
      (trim (clientId_value (elements ftp_url))) ftp_url = Inl (?msg, ?s2)"
    unfolding ftp_url_facts
    by (subst connect_try_unsupported) (simp_all add: startsWith_def env0_def)
  have h: "trim (brokerUrl_value (elements ftp_url)) \<noteq> []
      \<and> trim (clientId_value (elements ftp_url)) \<noteq> []"
    by (simp add: ftp_url_facts)
  note r = connect_failures_are_reported
  from r [of env0 ftp_url ?msg ?s2 "''timed out''"] t h
  have a: "statusHistory (connect env0 ftp_url) = statusHistory ?s2 @ [''error'']
        \<and> statusText (elements (connect env0 ftp_url)) = ''Connection Error''
        \<and> last (statusLog (elements (connect env0 ftp_url))) =
            log_line env0 (''Connection failed: '' @ ?msg) ?s2"
    by blast
  from r [of env0 blank_url ?msg ?s2 "''timed out''"] blank_url_facts(1)
  have b: "last (statusLog (elements (connect env0 blank_url))) =
            log_line env0 ''Error: Please enter a broker URL'' blank_url
        \<and> statusHistory (connect env0 blank_url) = statusHistory blank_url"
    by blast
  from r [of env0 blank_id ?msg ?s2 "''timed out''"] blank_id_facts(1,2)
  have c: "last (statusLog (elements (connect env0 blank_id))) =
            log_line env0 ''Error: Please enter a client ID'' blank_id
        \<and> statusHistory (connect env0 blank_id) = statusHistory blank_id"
    by blast
  from r [of env0 pending ?msg ?s2 "''timed out''"]
  have f: "statusText (elements (onFailure env0 ''timed out'' pending)) = ''Connection Error''"
    by blast
  from a b c f show ?thesis
    by (simp add: ftp_url_facts blank_url_facts blank_id_facts clock_facts)
qed

text \<open>
  Against C6 as stated (every failing \<open>connect\<close> sets the status to \<open>error\<close>): with a
  broker field holding only white space, \<open>connect\<close> logs the request for a broker URL,
  never calls \<open>updateConnectionStatus\<close>, and the status text stays \<open>Disconnected\<close>.
\<close>

theorem missing_input_sets_no_error_counterexample:
  "trim (brokerUrl_value (elements blank_url)) = []
   \<and> statusHistory (connect env0 blank_url) = []
   \<and> statusText (elements (connect env0 blank_url)) = ''Disconnected''
   \<and> textContent (last (statusLog (elements (connect env0 blank_url)))) =
       ''[12:00:11 AM] Error: Please enter a broker URL''"
  by (simp add: connect_missing_url blank_url_facts clock_facts)

section \<open>Incoming messages\<close>

text \<open>
  C5. For every topic (the three subscribed ones among them) and every payload that
  \<open>JSON.parse\<close> rejects, the \<open>try\<close> block of \<open>handleIncomingMessage\<close> throws, the handler
  catches it and returns normally, and what it does is append one log entry, the last
  child of the log pane, whose text is the time stamp followed by \<open>Received on\<close>, the
  topic and the raw payload; so the raw payload is a contiguous part of that text.
  Connection state, status, motor state and the calls on the client are untouched.
\<close>

theorem malformed_payload_is_logged:
  assumes "jsonParse e payload = None"
  shows "handleIncomingMessage_try e topic payload s = None
       \<and> handleIncomingMessage e topic payload s =
           addLogEntry e (''Received on '' @ topic @ '': '' @ payload) s
       \<and> last (statusLog (elements (handleIncomingMessage e topic payload s))) =
           \<lparr>classList = [''log-entry''],
            textContent = ''['' @ toLocaleTimeString (dates e (dateCount s)) @ ''] Received on ''
                            @ topic @ '': '' @ payload\<rparr>
       \<and> sublist payload
           (textContent (last (statusLog (elements (handleIncomingMessage e topic payload s)))))
       \<and> statusHistory (handleIncomingMessage e topic payload s) = statusHistory s
       \<and> isConnected (handleIncomingMessage e topic payload s) = isConnected s
       \<and> motorState (handleIncomingMessage e topic payload s) = motorState s
       \<and> calls (handleIncomingMessage e topic payload s) = calls s"
proof -
  have t: "handleIncomingMessage_try e topic payload s = None"
    using assms by (simp add: handleIncomingMessage_try_def)
  then have h: "handleIncomingMessage e topic payload s =
      addLogEntry e (''Received on '' @ topic @ '': '' @ payload) s"
    by (simp add: handleIncomingMessage_def)
  have l: "last (statusLog (elements (handleIncomingMessage e topic payload s))) =
      \<lparr>classList = [''log-entry''],
       textContent = ''['' @ toLocaleTimeString (dates e (dateCount s)) @ ''] Received on ''
                       @ topic @ '': '' @ payload\<rparr>"
    by (simp add: h log_line_def Let_def)
  have "sublist payload
      ((''['' @ toLocaleTimeString (dates e (dateCount s)) @ ''] Received on '' @ topic @ '': '')
        @ payload @ [])"
    by (rule sublist_appendI)
  then have sub: "sublist payload
      (textContent (last (statusLog (elements (handleIncomingMessage e topic payload s)))))"
    by (simp add: l)
  from t h l sub show ?thesis by simp
qed

theorem malformed_payload_is_logged_witness:
  "jsonParse env0 ''{oops'' = None
   \<and> statusLog (elements (handleIncomingMessage env0 topics_status ''{oops'' started)) =
       statusLog (elements started) @
       [\<lparr>classList = [''log-entry''],
         textContent = ''[12:00:11 AM] Received on akuri/motor/status: {oops''\<rparr>]"
proof -
  have j: "jsonParse env0 ''{oops'' = None" by (simp add: env0_def)
  have "statusLog (elements
          (addLogEntry env0 (''Received on '' @ topics_status @ '': '' @ ''{oops'') started)) =
       statusLog (elements started) @
       [\<lparr>classList = [''log-entry''],
         textContent = ''[12:00:11 AM] Received on akuri/motor/status: {oops''\<rparr>]"
    by code_simp
  with malformed_payload_is_logged [OF j, of topics_status started] j
  show ?thesis by simp
qed

section \<open>Disconnecting\<close>

text \<open>
  C9, as the code has it. For every controller state, when \<open>disconnect\<close> returns,
  \<open>isConnected\<close> is false and the connection status is \<open>disconnected\<close>. The stored
  handle is null afterwards if \<open>isConnected\<close> was true at the call, and then the session
  of a stored handle was told to disconnect; if \<open>isConnected\<close> was false, the handle is
  left as it was and no call is made. The connect button calls \<open>disconnect\<close> only when
  \<open>isConnected\<close> is true, so a click that disconnects leaves no handle.
\<close>

theorem disconnect_resets_connection:
  "\<not> isConnected (disconnect e s)
   \<and> statusText (elements (disconnect e s)) = ''Disconnected''
   \<and> ''connected'' \<notin> set (statusIndicator (elements (disconnect e s)))
   \<and> statusHistory (disconnect e s) = statusHistory s @ [''disconnected'']
   \<and> client (disconnect e s) = (if isConnected s then None else client s)
   \<and> calls (disconnect e s) =
       (case client s of
          None \<Rightarrow> calls s
        | Some c \<Rightarrow> if isConnected s then calls s @ [Disconnect c] else calls s)
   \<and> (isConnected s \<longrightarrow> client (connectButton_click e s) = None)"
  by (simp add: disconnect_def connectButton_click_def Let_def updateConnectionStatus_text
        updateConnectionStatus_indicator split: option.splits)

theorem disconnect_resets_connection_witness:
  "isConnected connected
   \<and> client connected = Some (Client ''broker.hivemq.com'' 8000 ''motor-panel'')
   \<and> client (disconnect env0 connected) = None
   \<and> client (connectButton_click env0 connected) = None
   \<and> \<not> isConnected (disconnect env0 connected)
   \<and> statusText (elements (disconnect env0 connected)) = ''Disconnected''
   \<and> calls (disconnect env0 connected) =
       calls connected @ [Disconnect (Client ''broker.hivemq.com'' 8000 ''motor-panel'')]"
  using disconnect_resets_connection [of env0 connected] connected_facts(1,2)
  by simp

text \<open>
  Against C9 as stated (the handle is null after every \<open>disconnect\<close>): while a
  connection attempt is under way, \<open>isConnected\<close> is false and a handle is stored;
  \<open>disconnect\<close> then keeps that handle.
\<close>

theorem disconnect_keeps_pending_handle_counterexample:
  "\<not> isConnected pending
   \<and> client pending = Some (Client ''broker.hivemq.com'' 8000 ''motor-panel'')
   \<and> client (disconnect env0 pending) = Some (Client ''broker.hivemq.com'' 8000 ''motor-panel'')
   \<and> client (disconnect env0 pending) \<noteq> None"
  by (simp add: pending_facts)

end
